theory Spec2Isabelle
  imports Complex_Main "HOL-Library.Sublist"
begin

section \<open>Python values, exceptions and text\<close>

text \<open>
  The claims pipeline is Python. The values that reach the decision logic come from a JSON
  configuration document and from dictionaries built by the pipeline, so they are modelled
  by one datatype of dynamically typed values. A number is modelled by the real it denotes
  (Python compares ints and finite floats by their exact values); a string is a list of
  characters, each one code point below 256; a dictionary is the list of its items in
  insertion order, read with \<open>map_of\<close>.
\<close>

datatype pyval =
    PNone
  | PBool bool
  | PNum real
  | PStr string
  | PList "pyval list"
  | PDict "(string \<times> pyval) list"

text \<open>The exceptions the modelled operations can raise; all are subclasses of \<open>Exception\<close>.\<close>

datatype exn = TypeError | KeyError string | AttributeError | ValueError | IndexError

text \<open>
  An f-string is kept as the list of its parts: literal text (into which interpolated
  strings are spliced), a number under the format \<open>:.2f\<close>, and the message of a caught
  exception. How the interpreter renders the last two is not part of the model.
\<close>

datatype piece = Lit string | Fmt2f real | ExnText exn

type_synonym fstring = "piece list"

text \<open>\<open>try: body except Exception as e: handler\<close>\<close>

definition try_except :: "exn + 'a \<Rightarrow> (exn \<Rightarrow> exn + 'a) \<Rightarrow> exn + 'a" where
  "try_except body handler = (case body of Inl e \<Rightarrow> handler e | Inr r \<Rightarrow> Inr r)"

text \<open>Truth value testing (\<open>not x\<close>, \<open>x and y\<close>).\<close>

fun truthy :: "pyval \<Rightarrow> bool" where
  "truthy PNone = False"
| "truthy (PBool b) = b"
| "truthy (PNum r) = (r \<noteq> 0)"
| "truthy (PStr s) = (s \<noteq> [])"
| "truthy (PList xs) = (xs \<noteq> [])"
| "truthy (PDict kvs) = (kvs \<noteq> [])"

text \<open>Truth value of an argument that is \<open>None\<close> or a \<open>str\<close>.\<close>

fun truthy_str :: "string option \<Rightarrow> bool" where
  "truthy_str None = False"
| "truthy_str (Some s) = (s \<noteq> [])"

text \<open>The numeric value of an operand of an ordering comparison; \<open>bool\<close> is a subclass of \<open>int\<close>.\<close>

fun as_num :: "pyval \<Rightarrow> real option" where
  "as_num (PNum r) = Some r"
| "as_num (PBool b) = Some (if b then 1 else 0)"
| "as_num _ = None"

text \<open>\<open>v < t\<close>, \<open>v > t\<close> and \<open>v <= t\<close> against a number \<open>t\<close>: a TypeError unless \<open>v\<close> is a number.\<close>

definition py_lt :: "pyval \<Rightarrow> real \<Rightarrow> exn + bool" where
  "py_lt v t = (case as_num v of None \<Rightarrow> Inl TypeError | Some r \<Rightarrow> Inr (r < t))"

definition py_gt :: "pyval \<Rightarrow> real \<Rightarrow> exn + bool" where
  "py_gt v t = (case as_num v of None \<Rightarrow> Inl TypeError | Some r \<Rightarrow> Inr (r > t))"

definition py_le :: "pyval \<Rightarrow> real \<Rightarrow> exn + bool" where
  "py_le v t = (case as_num v of None \<Rightarrow> Inl TypeError | Some r \<Rightarrow> Inr (r \<le> t))"

text \<open>\<open>f"{v:.2f}"\<close>: defined on numbers, a ValueError on a string, a TypeError otherwise.\<close>

definition format_2f :: "pyval \<Rightarrow> exn + piece" where
  "format_2f v =
     (case as_num v of
        Some r \<Rightarrow> Inr (Fmt2f r)
      | None \<Rightarrow> (case v of PStr s \<Rightarrow> Inl ValueError | _ \<Rightarrow> Inl TypeError))"

subsection \<open>Strings\<close>

text \<open>
  \<open>str.lower()\<close> on code points below 256: the letters A to Z and the upper-case letters of
  Latin-1 (192 to 222, without the multiplication sign 215) move up by 32, which sets the
  bit of weight 32; every other character stays.
\<close>

definition lower_char :: "char \<Rightarrow> char" where
  "lower_char c =
     (let n = (of_char c :: nat)
      in if (65 \<le> n \<and> n \<le> 90) \<or> (192 \<le> n \<and> n \<le> 222 \<and> n \<noteq> 215)
         then (case c of Char b0 b1 b2 b3 b4 b5 b6 b7 \<Rightarrow> Char b0 b1 b2 b3 b4 True b6 b7)
         else c)"

definition lower :: "string \<Rightarrow> string" where
  "lower s = map lower_char s"

text \<open>\<open>p in t\<close> for two strings: \<open>p\<close> occurs in \<open>t\<close> as a contiguous substring.\<close>

fun str_in :: "string \<Rightarrow> string \<Rightarrow> bool" where
  "str_in p [] = (p = [])"
| "str_in p (c # cs) = (prefix p (c # cs) \<or> str_in p cs)"

text \<open>A string between single quotes, as in \<open>f"'{s}'"\<close>.\<close>

definition quoted :: "string \<Rightarrow> string" where
  "quoted s = CHR 0x27 # s @ [CHR 0x27]"

section \<open>Compliance checker\<close>

text \<open>
  \<open>re.match(r"PN-[A-Z]+-\d+", s)\<close>: the pattern is matched at the start of \<open>s\<close>, and what
  follows the match is not looked at. \<open>[A-Z]+\<close> is greedy and cannot consume the hyphen, so
  the match is deterministic.
\<close>

definition is_upper :: "char \<Rightarrow> bool" where
  "is_upper c = (65 \<le> (of_char c :: nat) \<and> (of_char c :: nat) \<le> 90)"

definition is_digit :: "char \<Rightarrow> bool" where
  "is_digit c = (48 \<le> (of_char c :: nat) \<and> (of_char c :: nat) \<le> 57)"

definition policy_re_match :: "string \<Rightarrow> bool" where
  "policy_re_match s =
     (case s of
        p # n # h # rest \<Rightarrow>
          p = CHR ''P'' \<and> n = CHR ''N'' \<and> h = CHR ''-'' \<and> takeWhile is_upper rest \<noteq> [] \<and>
          (case dropWhile is_upper rest of
             h' # d # _ \<Rightarrow> h' = CHR ''-'' \<and> is_digit d
           | _ \<Rightarrow> False)
      | _ \<Rightarrow> False)"

text \<open>\<open>obj[key]\<close> with a string key: only a dictionary can be subscripted by a string.\<close>

definition subscript :: "pyval \<Rightarrow> string \<Rightarrow> exn + pyval" where
  "subscript obj k =
     (case obj of
        PDict kvs \<Rightarrow> (case map_of kvs k of None \<Rightarrow> Inl (KeyError k) | Some v \<Rightarrow> Inr v)
      | _ \<Rightarrow> Inl TypeError)"

text \<open>\<open>s in container\<close> for a string \<open>s\<close>.\<close>

definition py_contains :: "pyval \<Rightarrow> string \<Rightarrow> exn + bool" where
  "py_contains container s =
     (case container of
        PList xs \<Rightarrow> Inr (PStr s \<in> set xs)
      | PStr t \<Rightarrow> Inr (str_in s t)
      | PDict kvs \<Rightarrow> Inr (s \<in> fst ` set kvs)
      | _ \<Rightarrow> Inl TypeError)"

text \<open>The items a \<open>for\<close> loop over a value visits.\<close>

definition py_iter :: "pyval \<Rightarrow> exn + pyval list" where
  "py_iter v =
     (case v of
        PList xs \<Rightarrow> Inr xs
      | PStr s \<Rightarrow> Inr (map (\<lambda>c. PStr [c]) s)
      | PDict kvs \<Rightarrow> Inr (map (\<lambda>kv. PStr (fst kv)) kvs)
      | _ \<Rightarrow> Inl TypeError)"

text \<open>
  The loop over the exclusions. \<open>details_lower\<close> is \<open>claim_details.lower()\<close>; an exclusion
  that is not a string makes \<open>exclusion in claim_details.lower()\<close> raise a TypeError.
\<close>

fun scan_exclusions :: "pyval list \<Rightarrow> string \<Rightarrow> exn + (bool \<times> fstring)" where
  "scan_exclusions [] details_lower = Inr (True, [Lit ''Compliant''])"
| "scan_exclusions (exclusion # rest) details_lower =
     (case exclusion of
        PStr e \<Rightarrow>
          if str_in e details_lower
          then Inr (False, [Lit (''Claim rejected due to exclusion clause: '' @ quoted e @ ''.'')])
          else scan_exclusions rest details_lower
      | _ \<Rightarrow> Inl TypeError)"

definition invalid_data :: "bool \<times> fstring" where
  "invalid_data = (False, [Lit ''Invalid Data (Missing Policy No., Claim Type, or Claim Details)''])"

text \<open>The body of the \<open>try\<close> block of \<open>check_policy_compliance\<close>.\<close>

definition compliance_body ::
  "(string \<times> pyval) list \<Rightarrow> string option \<Rightarrow> string option \<Rightarrow> string option \<Rightarrow> exn + (bool \<times> fstring)"
where
  "compliance_body POLICY_DB policy_number claim_type claim_details =
     (if \<not> truthy_str policy_number \<or> \<not> truthy_str claim_type \<or> \<not> truthy_str claim_details
      then Inr invalid_data
      else case (policy_number, claim_type, claim_details) of
        (Some pn, Some ct, Some cd) \<Rightarrow>
          if \<not> policy_re_match pn
          then Inr (False, [Lit (''Invalid Policy Number format: '' @ pn)])
          else (case map_of POLICY_DB pn of
              None \<Rightarrow> Inr (False, [Lit (''Policy '' @ pn @ '' not found'')])
            | Some policy \<Rightarrow>
                if \<not> truthy policy
                then Inr (False, [Lit (''Policy '' @ pn @ '' not found'')])
                else (case subscript policy ''coverage'' of
                    Inl e \<Rightarrow> Inl e
                  | Inr coverage \<Rightarrow>
                      (case py_contains coverage ct of
                         Inl e \<Rightarrow> Inl e
                       | Inr covered \<Rightarrow>
                           if \<not> covered
                           then Inr (False, [Lit (''Claim type '' @ quoted ct @ '' is not covered.'')])
                           else (case subscript policy ''exclusions'' of
                               Inl e \<Rightarrow> Inl e
                             | Inr exclusions \<Rightarrow>
                                 (case py_iter exclusions of
                                    Inl e \<Rightarrow> Inl e
                                  | Inr xs \<Rightarrow> scan_exclusions xs (lower cd))))))
      | _ \<Rightarrow> Inr invalid_data)"

definition check_policy_compliance ::
  "(string \<times> pyval) list \<Rightarrow> string option \<Rightarrow> string option \<Rightarrow> string option \<Rightarrow> exn + (bool \<times> fstring)"
where
  "check_policy_compliance POLICY_DB policy_number claim_type claim_details =
     try_except (compliance_body POLICY_DB policy_number claim_type claim_details)
       (\<lambda>e. Inr (False, [Lit ''Compliance check failed: '', ExnText e]))"

section \<open>Workflow router\<close>

text \<open>
  \<open>claim_data\<close> is a dictionary with string keys. Each key that the router or the pipeline
  uses is a field that is absent (\<open>None\<close>) or holds a value (\<open>Some v\<close>), so that
  \<open>claim_data.get(k, d)\<close> is the field's value, or \<open>d\<close> when the field is absent. The
  compliance reason is the f-string built by the compliance checker.
\<close>

record entities =
  PERSON :: "string list"
  DATE :: "string list"
  POLICY_NO :: "string option"
  CLAIM_VALUE :: "real option"

record claim_data =
  cd_entities :: "entities option"
  cd_type :: "pyval option"
  cd_confidence :: "pyval option"
  cd_priority :: "pyval option"
  cd_value :: "pyval option"
  cd_is_compliant :: "pyval option"
  cd_compliance_reason :: "fstring option"

text \<open>The argument of the router: a dictionary, or an object of another type.\<close>

datatype claim_arg = ClaimDict claim_data | NotADict pyval

text \<open>\<open>d.get(k, default)\<close>\<close>

definition get_or :: "'a option \<Rightarrow> 'a \<Rightarrow> 'a" where
  "get_or field d = (case field of None \<Rightarrow> d | Some v \<Rightarrow> v)"

text \<open>\<open>ROUTING_RULES\<close> and the routing decision, a dictionary with the keys \<open>decision\<close> and \<open>reason\<close>.\<close>

record routing_rules =
  high_value_threshold :: real
  stp_threshold :: real

record routing =
  decision :: string
  reason :: fstring

text \<open>The decision labels, under the names the specification gives them.\<close>

definition FlagManualReview :: string where
  "FlagManualReview = ''Flag for Manual Review''"

definition AutoDeny :: string where
  "AutoDeny = ''Auto-Deny''"

definition RouteSeniorAdjuster :: string where
  "RouteSeniorAdjuster = ''Route to Senior Adjuster''"

definition RouteSTP :: string where
  "RouteSTP = ''Route to Straight-Through Processing (STP)''"

definition RouteGeneralQueue :: string where
  "RouteGeneralQueue = ''Route to General Claims Queue''"

text \<open>
  The tests of the four conditional rules, in the order of the source. A comparison with a
  value that is not a number raises. \<open>claim_data.get("value") and claim_data["value"] > t\<close>
  is false when the value is absent or falsy (\<open>None\<close>, zero), without comparing.
\<close>

definition rule1_test :: "real \<Rightarrow> claim_data \<Rightarrow> exn + bool" where
  "rule1_test CONFIDENCE_THRESHOLD cd =
     py_lt (get_or (cd_confidence cd) (PNum 0)) CONFIDENCE_THRESHOLD"

definition rule2_test :: "claim_data \<Rightarrow> bool" where
  "rule2_test cd = (\<not> truthy (get_or (cd_is_compliant cd) (PBool False)))"

definition rule3_test :: "routing_rules \<Rightarrow> claim_data \<Rightarrow> exn + bool" where
  "rule3_test ROUTING_RULES cd =
     (if cd_priority cd = Some (PStr ''High'') then Inr True
      else let v = get_or (cd_value cd) PNone
           in if \<not> truthy v then Inr False
              else py_gt v (high_value_threshold ROUTING_RULES))"

definition rule4_test :: "routing_rules \<Rightarrow> claim_data \<Rightarrow> exn + bool" where
  "rule4_test ROUTING_RULES cd =
     (let v = get_or (cd_value cd) PNone
      in if \<not> truthy v then Inr False
         else py_le v (stp_threshold ROUTING_RULES))"

text \<open>The body of the \<open>try\<close> block of \<open>intelligent_route\<close>.\<close>

definition route_body :: "real \<Rightarrow> routing_rules \<Rightarrow> claim_arg \<Rightarrow> exn + routing" where
  "route_body CONFIDENCE_THRESHOLD ROUTING_RULES arg =
     (case arg of
        NotADict x \<Rightarrow>
          Inr \<lparr>decision = ''Flag for Review'', reason = [Lit ''Invalid claim data format.'']\<rparr>
      | ClaimDict cd \<Rightarrow>
          (case rule1_test CONFIDENCE_THRESHOLD cd of
             Inl e \<Rightarrow> Inl e
           | Inr True \<Rightarrow>
               (case format_2f (get_or (cd_confidence cd) (PNum 0)) of
                  Inl e \<Rightarrow> Inl e
                | Inr c \<Rightarrow>
                    Inr \<lparr>decision = ''Flag for Manual Review'',
                         reason = [Lit ''Low classification confidence ('', c, Lit '')'']\<rparr>)
           | Inr False \<Rightarrow>
               if rule2_test cd
               then Inr \<lparr>decision = ''Auto-Deny'',
                         reason = Lit ''Non-compliant: '' #
                                  get_or (cd_compliance_reason cd) [Lit ''Unknown'']\<rparr>
               else (case rule3_test ROUTING_RULES cd of
                   Inl e \<Rightarrow> Inl e
                 | Inr True \<Rightarrow>
                     Inr \<lparr>decision = ''Route to Senior Adjuster'',
                          reason = [Lit ''High priority or high value claim'']\<rparr>
                 | Inr False \<Rightarrow>
                     (case rule4_test ROUTING_RULES cd of
                        Inl e \<Rightarrow> Inl e
                      | Inr True \<Rightarrow>
                          Inr \<lparr>decision = ''Route to Straight-Through Processing (STP)'',
                               reason = [Lit ''Low-value, compliant claim'']\<rparr>
                      | Inr False \<Rightarrow>
                          Inr \<lparr>decision = ''Route to General Claims Queue'',
                               reason = [Lit ''Standard claim'']\<rparr>))))"

definition intelligent_route :: "real \<Rightarrow> routing_rules \<Rightarrow> claim_arg \<Rightarrow> exn + routing" where
  "intelligent_route CONFIDENCE_THRESHOLD ROUTING_RULES arg =
     try_except (route_body CONFIDENCE_THRESHOLD ROUTING_RULES arg)
       (\<lambda>e. Inr \<lparr>decision = ''Flag for Manual Review'',
                  reason = [Lit ''Routing error: '', ExnText e]\<rparr>)"

section \<open>Claim classifier\<close>

text \<open>
  The trained model is a collaborator: \<open>predict([text])\<close> gives the labels of its one input,
  \<open>predict_proba([text])\<close> the class probabilities of that input, and either may raise.
\<close>

record classifier =
  predict :: "string \<Rightarrow> exn + string list"
  predict_proba :: "string \<Rightarrow> exn + real list"

text \<open>\<open>probabilities.max()\<close>: a ValueError on an empty array.\<close>

fun py_max :: "real list \<Rightarrow> exn + real" where
  "py_max [] = Inl ValueError"
| "py_max (x # xs) = Inr (fold max xs x)"

text \<open>\<open>prediction[0]\<close>\<close>

fun first_item :: "'a list \<Rightarrow> exn + 'a" where
  "first_item [] = Inl IndexError"
| "first_item (x # xs) = Inr x"

definition is_str :: "pyval \<Rightarrow> bool" where
  "is_str v = (case v of PStr s \<Rightarrow> True | _ \<Rightarrow> False)"

definition high_priority_keywords :: "string list" where
  "high_priority_keywords = [''major'', ''fire'', ''totaled'', ''emergency'', ''collision'']"

definition priority_of :: "string \<Rightarrow> string" where
  "priority_of claim_text =
     (if list_ex (\<lambda>kw. str_in kw (lower claim_text)) high_priority_keywords
      then ''High'' else ''Medium'')"

text \<open>The body of the \<open>try\<close> block of \<open>classify_claim\<close>.\<close>

definition classify_body :: "classifier \<Rightarrow> string \<Rightarrow> exn + (string option \<times> real \<times> string option)" where
  "classify_body model claim_text =
     (case predict model claim_text of
        Inl e \<Rightarrow> Inl e
      | Inr prediction \<Rightarrow>
          (case predict_proba model claim_text of
             Inl e \<Rightarrow> Inl e
           | Inr probabilities \<Rightarrow>
               (case py_max probabilities of
                  Inl e \<Rightarrow> Inl e
                | Inr confidence \<Rightarrow>
                    (case first_item prediction of
                       Inl e \<Rightarrow> Inl e
                     | Inr claim_type \<Rightarrow>
                         Inr (Some claim_type, confidence, Some (priority_of claim_text))))))"

definition classify_claim ::
  "classifier option \<Rightarrow> pyval \<Rightarrow> exn + (string option \<times> real \<times> string option)"
where
  "classify_claim model claim_text =
     (if model = None \<or> \<not> truthy claim_text \<or> \<not> is_str claim_text
      then Inr (None, 0, None)
      else case (model, claim_text) of
        (Some m, PStr t) \<Rightarrow> try_except (classify_body m t) (\<lambda>e. Inr (None, 0, None))
      | _ \<Rightarrow> Inr (None, 0, None))"

section \<open>Pipeline\<close>

text \<open>
  \<open>ClaimsPipeline.run\<close> calls four stages in turn. The model returns, beside the result
  dictionary, the list of the stages it has called, in order.
\<close>

datatype stage = Extraction | Classification | Compliance | Routing

record classification =
  c_type :: string
  c_priority :: "string option"
  c_confidence :: piece

record compliance =
  compliant :: bool
  details :: fstring

text \<open>
  The two shapes of the result dictionary: \<open>{"status": "Failed", "reason": r}\<close>, and
  \<open>{"status": "Success", "extracted_data": .., "classification": .., "compliance": ..,
  "final_routing": ..}\<close>.
\<close>

datatype result =
    Failed fstring
  | Success entities classification compliance routing

definition is_Success :: "result \<Rightarrow> bool" where
  "is_Success r = (case r of Success e c k d \<Rightarrow> True | Failed x \<Rightarrow> False)"

text \<open>A value that is \<open>None\<close> or present, as a dictionary entry.\<close>

definition opt_str :: "string option \<Rightarrow> pyval" where
  "opt_str x = (case x of None \<Rightarrow> PNone | Some s \<Rightarrow> PStr s)"

definition opt_num :: "real option \<Rightarrow> pyval" where
  "opt_num x = (case x of None \<Rightarrow> PNone | Some r \<Rightarrow> PNum r)"

text \<open>
  The body of the \<open>try\<close> block of \<open>run\<close>. \<open>process_document\<close> is the extraction collaborator:
  it returns the entities dictionary (or \<open>None\<close>) and the text (or \<open>None\<close>).
\<close>

definition run_body ::
  "(string \<Rightarrow> exn + (entities option \<times> string option)) \<Rightarrow> classifier \<Rightarrow>
   (string \<times> pyval) list \<Rightarrow> real \<Rightarrow> routing_rules \<Rightarrow> string \<Rightarrow> (exn + result) \<times> stage list"
where
  "run_body process_document model POLICY_DB CONFIDENCE_THRESHOLD ROUTING_RULES image_path =
     (case process_document image_path of
        Inl e \<Rightarrow> (Inl e, [Extraction])
      | Inr (ents, txt) \<Rightarrow>
          if ents = None \<or> \<not> truthy_str txt
          then (Inr (Failed [Lit ''Could not process document. The image may be unreadable or blank.'']),
                [Extraction])
          else (case (ents, txt) of
              (Some entities, Some t) \<Rightarrow>
                (case classify_claim (Some model) (PStr t) of
                   Inl e \<Rightarrow> (Inl e, [Extraction, Classification])
                 | Inr (claim_type, confidence, priority) \<Rightarrow>
                     if \<not> truthy_str claim_type
                     then (Inr (Failed [Lit ''Could not classify the claim from the text.'']),
                           [Extraction, Classification])
                     else (case claim_type of
                         Some ct \<Rightarrow>
                           (case check_policy_compliance POLICY_DB (POLICY_NO entities) claim_type (Some t) of
                              Inl e \<Rightarrow> (Inl e, [Extraction, Classification, Compliance])
                            | Inr (is_compliant, why) \<Rightarrow>
                                (case intelligent_route CONFIDENCE_THRESHOLD ROUTING_RULES
                                        (ClaimDict
                                           \<lparr>cd_entities = Some entities,
                                            cd_type = Some (PStr ct),
                                            cd_confidence = Some (PNum confidence),
                                            cd_priority = Some (opt_str priority),
                                            cd_value = Some (opt_num (CLAIM_VALUE entities)),
                                            cd_is_compliant = Some (PBool is_compliant),
                                            cd_compliance_reason = Some why\<rparr>) of
                                   Inl e \<Rightarrow> (Inl e, [Extraction, Classification, Compliance, Routing])
                                 | Inr final_decision \<Rightarrow>
                                     (case format_2f (PNum confidence) of
                                        Inl e \<Rightarrow> (Inl e, [Extraction, Classification, Compliance, Routing])
                                      | Inr c \<Rightarrow>
                                          (Inr (Success entities
                                                  \<lparr>c_type = ct, c_priority = priority, c_confidence = c\<rparr>
                                                  \<lparr>compliant = is_compliant, details = why\<rparr>
                                                  final_decision),
                                           [Extraction, Classification, Compliance, Routing]))))
                       | None \<Rightarrow>
                           (Inr (Failed [Lit ''Could not classify the claim from the text.'']),
                            [Extraction, Classification])))
            | _ \<Rightarrow>
                (Inr (Failed [Lit ''Could not process document. The image may be unreadable or blank.'']),
                 [Extraction])))"

definition run ::
  "(string \<Rightarrow> exn + (entities option \<times> string option)) \<Rightarrow> classifier \<Rightarrow>
   (string \<times> pyval) list \<Rightarrow> real \<Rightarrow> routing_rules \<Rightarrow> string \<Rightarrow> result \<times> stage list"
where
  "run process_document model POLICY_DB CONFIDENCE_THRESHOLD ROUTING_RULES image_path =
     (case run_body process_document model POLICY_DB CONFIDENCE_THRESHOLD ROUTING_RULES image_path of
        (Inl e, called) \<Rightarrow> (Failed [Lit ''An unexpected error occurred: '', ExnText e], called)
      | (Inr r, called) \<Rightarrow> (r, called))"

section \<open>The specification's notions of matching\<close>

text \<open>
  The policy number format in the specification's words: the text \<open>PN-\<close>, one or more
  upper-case letters, a hyphen, one or more digits, and nothing else.
\<close>

definition policy_number_format :: "string \<Rightarrow> bool" where
  "policy_number_format p =
     (\<exists>ls ds. p = ''PN-'' @ ls @ ''-'' @ ds \<and>
        ls \<noteq> [] \<and> (\<forall>c \<in> set ls. is_upper c) \<and> ds \<noteq> [] \<and> (\<forall>c \<in> set ds. is_digit c))"

text \<open>
  Case-insensitive substring: \<open>p\<close> occurs in \<open>t\<close> as a contiguous substring once both are
  put in lower case.
\<close>

definition ci_substring :: "string \<Rightarrow> string \<Rightarrow> bool" where
  "ci_substring p t = sublist (lower p) (lower t)"

section \<open>Rule order\<close>

text \<open>
  A claim record as the specification's data model types it: the confidence is a number (or
  the field is absent), the claim value is a number, \<open>None\<close> or absent. On such a record
  no comparison of the router raises.
\<close>

definition claim_record :: "claim_data \<Rightarrow> bool" where
  "claim_record cd =
     ((case cd_confidence cd of None \<Rightarrow> True | Some v \<Rightarrow> as_num v \<noteq> None) \<and>
      (case cd_value cd of None \<Rightarrow> True | Some v \<Rightarrow> v = PNone \<or> as_num v \<noteq> None))"

text \<open>
  Rule \<open>i\<close> fires: the tests of the rules before it have evaluated to false and its own
  test to true. Rule 5 has no test.
\<close>

definition rule_fires :: "nat \<Rightarrow> real \<Rightarrow> routing_rules \<Rightarrow> claim_data \<Rightarrow> bool" where
  "rule_fires i T R cd =
     ((i = 1 \<and> rule1_test T cd = Inr True) \<or>
      (i = 2 \<and> rule1_test T cd = Inr False \<and> rule2_test cd) \<or>
      (i = 3 \<and> rule1_test T cd = Inr False \<and> \<not> rule2_test cd \<and> rule3_test R cd = Inr True) \<or>
      (i = 4 \<and> rule1_test T cd = Inr False \<and> \<not> rule2_test cd \<and> rule3_test R cd = Inr False \<and>
         rule4_test R cd = Inr True) \<or>
      (i = 5 \<and> rule1_test T cd = Inr False \<and> \<not> rule2_test cd \<and> rule3_test R cd = Inr False \<and>
         rule4_test R cd = Inr False))"

text \<open>The decision that rule \<open>i\<close> returns.\<close>

definition rule_decision :: "nat \<Rightarrow> string" where
  "rule_decision i =
     (if i = 1 then FlagManualReview
      else if i = 2 then AutoDeny
      else if i = 3 then RouteSeniorAdjuster
      else if i = 4 then RouteSTP
      else RouteGeneralQueue)"

section \<open>Example inputs\<close>

text \<open>
  The configuration of the specification's scenarios: confidence threshold 0.6 (written as
  the fraction 6/10), high-value threshold 10000, STP threshold 1000.
\<close>

definition example_rules :: routing_rules where
  "example_rules = \<lparr>high_value_threshold = 10000, stp_threshold = 1000\<rparr>"

text \<open>A compliant claim of medium priority, classified with confidence 0.9, with no value.\<close>

definition example_claim :: claim_data where
  "example_claim =
     \<lparr>cd_entities = None,
      cd_type = Some (PStr ''collision''),
      cd_confidence = Some (PNum (9 / 10)),
      cd_priority = Some (PStr ''Medium''),
      cd_value = None,
      cd_is_compliant = Some (PBool True),
      cd_compliance_reason = Some [Lit ''Compliant'']\<rparr>"

text \<open>The same claim with a claim value of zero, and with a claim value of 500.\<close>

definition zero_value_claim :: claim_data where
  "zero_value_claim = example_claim\<lparr>cd_value := Some (PNum 0)\<rparr>"

definition low_value_claim :: claim_data where
  "low_value_claim = example_claim\<lparr>cd_value := Some (PNum 500)\<rparr>"

text \<open>
  A policy store with the policy of the scenarios, extended by two exclusions; and a store
  whose record for that policy is malformed (its coverage is a number).
\<close>

definition example_db :: "(string \<times> pyval) list" where
  "example_db =
     [(''PN-AUTO-1001'',
       PDict [(''coverage'', PList [PStr ''collision'']),
              (''exclusions'', PList [PStr ''flood'', PStr ''war''])])]"

definition malformed_db :: "(string \<times> pyval) list" where
  "malformed_db = [(''PN-AUTO-1001'', PDict [(''coverage'', PNum 5)])]"

text \<open>An extraction result and a trained model for the scenarios.\<close>

definition example_entities :: entities where
  "example_entities =
     \<lparr>PERSON = [], DATE = [], POLICY_NO = Some ''PN-AUTO-1001'', CLAIM_VALUE = Some 12000\<rparr>"

definition example_document :: "string \<Rightarrow> exn + (entities option \<times> string option)" where
  "example_document image_path = Inr (Some example_entities, Some ''Major collision damage'')"

definition blank_document :: "string \<Rightarrow> exn + (entities option \<times> string option)" where
  "blank_document image_path = Inr (None, None)"

definition example_model :: classifier where
  "example_model =
     \<lparr>predict = (\<lambda>t. Inr [''collision'']), predict_proba = (\<lambda>t. Inr [9 / 10, 1 / 10])\<rparr>"

definition failing_model :: classifier where
  "failing_model = \<lparr>predict = (\<lambda>t. Inl ValueError), predict_proba = (\<lambda>t. Inr [9 / 10, 1 / 10])\<rparr>"

text \<open>A malformed claim record: its claim value is a string.\<close>

definition malformed_claim :: claim_data where
  "malformed_claim = example_claim\<lparr>cd_value := Some (PStr ''12,000'')\<rparr>"

section \<open>Properties of the router\<close>

subsection \<open>What the rule tests read\<close>

lemma rule1_test_value [simp]: "rule1_test T (cd\<lparr>cd_value := x\<rparr>) = rule1_test T cd"
  by (simp add: rule1_test_def)

lemma rule2_test_value [simp]: "rule2_test (cd\<lparr>cd_value := x\<rparr>) = rule2_test cd"
  by (simp add: rule2_test_def)

lemma rule3_test_falsy:
  "\<not> truthy (get_or (cd_value cd) PNone) \<Longrightarrow>
     rule3_test R cd = Inr (cd_priority cd = Some (PStr ''High''))"
  by (simp add: rule3_test_def)

lemma rule4_test_falsy: "\<not> truthy (get_or (cd_value cd) PNone) \<Longrightarrow> rule4_test R cd = Inr False"
  by (simp add: rule4_test_def)

text \<open>
  Claim C5. A claim record without a claim value (the key is absent, or holds \<open>None\<close>) whose
  confidence is at or above the threshold, that is compliant and whose priority is not
  High, is routed to the general claims queue.
\<close>

theorem route_no_value_general_queue:
  assumes "cd_confidence cd = Some (PNum c)" and "T \<le> c"
    and "cd_is_compliant cd = Some (PBool True)"
    and "cd_priority cd \<noteq> Some (PStr ''High'')"
    and "cd_value cd = None \<or> cd_value cd = Some PNone"
  shows "intelligent_route T R (ClaimDict cd) =
           Inr \<lparr>decision = RouteGeneralQueue, reason = [Lit ''Standard claim'']\<rparr>"
proof -
  have v: "\<not> truthy (get_or (cd_value cd) PNone)"
    using assms(5) by (auto simp: get_or_def)
  have r1: "rule1_test T cd = Inr False"
    using assms(1,2) by (simp add: rule1_test_def get_or_def py_lt_def)
  have r2: "\<not> rule2_test cd"
    using assms(3) by (simp add: rule2_test_def get_or_def)
  have r3: "rule3_test R cd = Inr False"
    using assms(4) by (simp add: rule3_test_falsy [OF v])
  have r4: "rule4_test R cd = Inr False"
    by (rule rule4_test_falsy [OF v])
  show ?thesis
    by (simp add: intelligent_route_def route_body_def try_except_def r1 r2 r3 r4
        RouteGeneralQueue_def)
qed

theorem route_no_value_general_queue_witness:
  "cd_confidence example_claim = Some (PNum (9 / 10)) \<and> (6 / 10 :: real) \<le> 9 / 10 \<and>
   cd_is_compliant example_claim = Some (PBool True) \<and>
   cd_priority example_claim \<noteq> Some (PStr ''High'') \<and>
   cd_value example_claim = None \<and>
   intelligent_route (6 / 10) example_rules (ClaimDict example_claim) =
     Inr \<lparr>decision = RouteGeneralQueue, reason = [Lit ''Standard claim'']\<rparr>"
  using route_no_value_general_queue [of example_claim "9 / 10" "6 / 10" example_rules]
  by (simp add: example_claim_def)

text \<open>
  Claim C9. A claim value that is present and equal to zero is routed exactly as an absent
  claim value, all other fields being equal: the decision and the reason are the same.
\<close>

theorem route_zero_value_as_absent:
  "intelligent_route T R (ClaimDict (cd\<lparr>cd_value := Some (PNum 0)\<rparr>)) =
   intelligent_route T R (ClaimDict (cd\<lparr>cd_value := None\<rparr>))"
proof -
  have 3: "rule3_test R (cd\<lparr>cd_value := Some (PNum 0)\<rparr>) = rule3_test R (cd\<lparr>cd_value := None\<rparr>)"
    by (simp add: rule3_test_falsy get_or_def)
  have 4: "rule4_test R (cd\<lparr>cd_value := Some (PNum 0)\<rparr>) = rule4_test R (cd\<lparr>cd_value := None\<rparr>)"
    by (simp add: rule4_test_falsy get_or_def)
  show ?thesis
    by (simp add: intelligent_route_def route_body_def 3 4
        cong: sum.case_cong bool.case_cong if_cong)
qed

theorem route_zero_value_as_absent_witness:
  "intelligent_route (6 / 10) example_rules (ClaimDict (example_claim\<lparr>cd_value := Some (PNum 0)\<rparr>)) =
     intelligent_route (6 / 10) example_rules (ClaimDict (example_claim\<lparr>cd_value := None\<rparr>)) \<and>
   intelligent_route (6 / 10) example_rules (ClaimDict (example_claim\<lparr>cd_value := None\<rparr>)) =
     Inr \<lparr>decision = RouteGeneralQueue, reason = [Lit ''Standard claim'']\<rparr>"
  using route_zero_value_as_absent [of "6 / 10" example_rules example_claim]
  by (simp add: intelligent_route_def route_body_def try_except_def rule1_test_def rule2_test_def
      rule3_test_def rule4_test_def get_or_def py_lt_def example_claim_def RouteGeneralQueue_def)

text \<open>
  Claim C10. When the confidence field is absent the router reads it as 0.0: if the
  confidence threshold is positive the claim is flagged for manual review, whatever its
  compliance, priority and value, and the reason cites the confidence 0.0.
\<close>

theorem route_absent_confidence:
  assumes "cd_confidence cd = None" and "0 < T"
  shows "intelligent_route T R (ClaimDict cd) =
           Inr \<lparr>decision = FlagManualReview,
                reason = [Lit ''Low classification confidence ('', Fmt2f 0, Lit '')'']\<rparr>"
  using assms
  by (simp add: intelligent_route_def route_body_def rule1_test_def try_except_def get_or_def
      py_lt_def format_2f_def FlagManualReview_def)

theorem route_absent_confidence_witness:
  "cd_confidence (example_claim\<lparr>cd_confidence := None, cd_value := Some (PNum 500)\<rparr>) = None \<and>
   (0 :: real) < 6 / 10 \<and>
   intelligent_route (6 / 10) example_rules
       (ClaimDict (example_claim\<lparr>cd_confidence := None, cd_value := Some (PNum 500)\<rparr>)) =
     Inr \<lparr>decision = FlagManualReview,
          reason = [Lit ''Low classification confidence ('', Fmt2f 0, Lit '')'']\<rparr>"
  using route_absent_confidence
    [of "example_claim\<lparr>cd_confidence := None, cd_value := Some (PNum 500)\<rparr>" "6 / 10" example_rules]
  by simp

subsection \<open>The order of the rules\<close>

lemma claim_record_tests:
  assumes "claim_record cd"
  shows "\<exists>b1 b3 b4. rule1_test T cd = Inr b1 \<and> rule3_test R cd = Inr b3 \<and> rule4_test R cd = Inr b4"
proof -
  from assms obtain c where c: "as_num (get_or (cd_confidence cd) (PNum 0)) = Some c"
    by (auto simp: claim_record_def get_or_def split: option.splits)
  from assms have v: "get_or (cd_value cd) PNone = PNone \<or> as_num (get_or (cd_value cd) PNone) \<noteq> None"
    by (auto simp: claim_record_def get_or_def split: option.splits)
  have 1: "rule1_test T cd = Inr (c < T)"
    using c by (simp add: rule1_test_def py_lt_def)
  from v have 3: "\<exists>b. rule3_test R cd = Inr b"
    by (auto simp: rule3_test_def py_gt_def Let_def)
  from v have 4: "\<exists>b. rule4_test R cd = Inr b"
    by (auto simp: rule4_test_def py_le_def Let_def)
  from 1 3 4 show ?thesis by blast
qed

lemma rule1_format:
  "rule1_test T cd = Inr True \<Longrightarrow> \<exists>c. format_2f (get_or (cd_confidence cd) (PNum 0)) = Inr c"
  by (auto simp: rule1_test_def py_lt_def format_2f_def split: option.splits)

lemma route_decision_of_tests:
  assumes "rule1_test T cd = Inr b1" "rule3_test R cd = Inr b3" "rule4_test R cd = Inr b4"
  shows "\<exists>r. intelligent_route T R (ClaimDict cd) = Inr r \<and>
     decision r = (if b1 then FlagManualReview else if rule2_test cd then AutoDeny
        else if b3 then RouteSeniorAdjuster else if b4 then RouteSTP else RouteGeneralQueue)"
proof (cases b1)
  case True
  with assms(1) have "rule1_test T cd = Inr True" by simp
  then obtain c where "format_2f (get_or (cd_confidence cd) (PNum 0)) = Inr c"
    using rule1_format by blast
  with True assms(1) show ?thesis
    by (simp add: intelligent_route_def route_body_def try_except_def FlagManualReview_def)
next
  case False
  with assms show ?thesis
    by (simp add: intelligent_route_def route_body_def try_except_def AutoDeny_def
        RouteSeniorAdjuster_def RouteSTP_def RouteGeneralQueue_def)
qed

text \<open>
  Claim C2. On every claim record exactly one of the five rules fires, and the router returns
  the decision of that rule. In particular a confidence below the threshold yields
  FlagManualReview, with a reason that cites the confidence, whatever the compliance, the
  priority and the claim value are.
\<close>

theorem route_exactly_one_rule:
  "(claim_record cd \<longrightarrow>
      (\<exists>!i. i \<in> {1..5} \<and> rule_fires i T R cd) \<and>
      (\<forall>i \<in> {1..5}. rule_fires i T R cd \<longrightarrow>
         (\<exists>r. intelligent_route T R (ClaimDict cd) = Inr r \<and> decision r = rule_decision i))) \<and>
   (\<forall>c. cd_confidence cd = Some (PNum c) \<and> c < T \<longrightarrow>
      intelligent_route T R (ClaimDict cd) =
        Inr \<lparr>decision = FlagManualReview,
             reason = [Lit ''Low classification confidence ('', Fmt2f c, Lit '')'']\<rparr>)"
proof (intro conjI impI allI)
  assume cr: "claim_record cd"
  then obtain b1 b3 b4 where
    t: "rule1_test T cd = Inr b1" "rule3_test R cd = Inr b3" "rule4_test R cd = Inr b4"
    using claim_record_tests by blast
  define k :: nat where
    "k = (if b1 then 1 else if rule2_test cd then 2 else if b3 then 3 else if b4 then 4 else 5)"
  have fires_iff: "rule_fires i T R cd \<longleftrightarrow> i = k" for i
    unfolding rule_fires_def k_def t by auto
  have "k \<in> {1..5}" by (simp add: k_def)
  then show "\<exists>!i. i \<in> {1..5} \<and> rule_fires i T R cd"
    by (auto simp: fires_iff)
  from route_decision_of_tests [OF t] obtain r where
    r: "intelligent_route T R (ClaimDict cd) = Inr r"
    "decision r = (if b1 then FlagManualReview else if rule2_test cd then AutoDeny
        else if b3 then RouteSeniorAdjuster else if b4 then RouteSTP else RouteGeneralQueue)"
    by blast
  have "decision r = rule_decision k"
    by (simp add: r(2) k_def rule_decision_def)
  with r(1) show "\<forall>i \<in> {1..5}. rule_fires i T R cd \<longrightarrow>
         (\<exists>r. intelligent_route T R (ClaimDict cd) = Inr r \<and> decision r = rule_decision i)"
    by (simp add: fires_iff)
next
  fix c assume "cd_confidence cd = Some (PNum c) \<and> c < T"
  then show "intelligent_route T R (ClaimDict cd) =
        Inr \<lparr>decision = FlagManualReview,
             reason = [Lit ''Low classification confidence ('', Fmt2f c, Lit '')'']\<rparr>"
    by (simp add: intelligent_route_def route_body_def rule1_test_def try_except_def get_or_def
      py_lt_def format_2f_def FlagManualReview_def)
qed

text \<open>
  The witness: on the claim of value 500 rule 4 fires and the decision is RouteSTP; on the
  compliant claim of value 12000 with confidence 0.4 the decision is FlagManualReview.
\<close>

theorem route_exactly_one_rule_witness:
  "claim_record low_value_claim \<and> 4 \<in> {1..5::nat} \<and>
   rule_fires 4 (6 / 10) example_rules low_value_claim \<and>
   (\<exists>r. intelligent_route (6 / 10) example_rules (ClaimDict low_value_claim) = Inr r \<and>
        decision r = RouteSTP) \<and>
   cd_confidence (example_claim\<lparr>cd_confidence := Some (PNum (4 / 10)), cd_value := Some (PNum 12000)\<rparr>) =
     Some (PNum (4 / 10)) \<and>
   (4 / 10 :: real) < 6 / 10 \<and>
   intelligent_route (6 / 10) example_rules
      (ClaimDict (example_claim\<lparr>cd_confidence := Some (PNum (4 / 10)), cd_value := Some (PNum 12000)\<rparr>)) =
     Inr \<lparr>decision = FlagManualReview,
          reason = [Lit ''Low classification confidence ('', Fmt2f (4 / 10), Lit '')'']\<rparr>"
proof -
  have cr: "claim_record low_value_claim"
    by (simp add: claim_record_def low_value_claim_def example_claim_def)
  have f: "rule_fires 4 (6 / 10) example_rules low_value_claim"
    by (simp add: rule_fires_def rule1_test_def rule2_test_def rule3_test_def rule4_test_def
        get_or_def py_lt_def py_gt_def py_le_def low_value_claim_def example_claim_def
        example_rules_def)
  from route_exactly_one_rule [of low_value_claim "6 / 10" example_rules] cr
  have "\<forall>i \<in> {1..5}. rule_fires i (6 / 10) example_rules low_value_claim \<longrightarrow>
         (\<exists>r. intelligent_route (6 / 10) example_rules (ClaimDict low_value_claim) = Inr r \<and>
              decision r = rule_decision i)"
    by blast
  with f have d: "\<exists>r. intelligent_route (6 / 10) example_rules (ClaimDict low_value_claim) = Inr r \<and>
        decision r = rule_decision 4"
    by simp
  have low: "intelligent_route (6 / 10) example_rules
      (ClaimDict (example_claim\<lparr>cd_confidence := Some (PNum (4 / 10)), cd_value := Some (PNum 12000)\<rparr>)) =
     Inr \<lparr>decision = FlagManualReview,
          reason = [Lit ''Low classification confidence ('', Fmt2f (4 / 10), Lit '')'']\<rparr>"
    using route_exactly_one_rule
      [of "example_claim\<lparr>cd_confidence := Some (PNum (4 / 10)), cd_value := Some (PNum 12000)\<rparr>"
          "6 / 10" example_rules]
    by simp
  from cr f d low show ?thesis
    by (simp add: rule_decision_def)
qed

text \<open>
  Claim C1, as stated, fails: the test of rule 4 is
  \<open>claim_data.get("value") and claim_data["value"] <= stp_threshold\<close>, and a claim value of
  zero is falsy. A compliant claim of medium priority and value 0 passes rules 1 to 3, has
  a value that is present and at most the STP threshold, and goes to the general queue.
\<close>

theorem route_stp_zero_value_counterexample:
  "cd_confidence zero_value_claim = Some (PNum (9 / 10)) \<and> (6 / 10 :: real) \<le> 9 / 10 \<and>
   cd_is_compliant zero_value_claim = Some (PBool True) \<and>
   cd_priority zero_value_claim \<noteq> Some (PStr ''High'') \<and>
   cd_value zero_value_claim = Some (PNum 0) \<and>
   \<not> 0 > high_value_threshold example_rules \<and> 0 \<le> stp_threshold example_rules \<and>
   intelligent_route (6 / 10) example_rules (ClaimDict zero_value_claim) =
     Inr \<lparr>decision = RouteGeneralQueue, reason = [Lit ''Standard claim'']\<rparr> \<and>
   RouteGeneralQueue \<noteq> RouteSTP"
  by (simp add: zero_value_claim_def example_claim_def example_rules_def intelligent_route_def
      route_body_def try_except_def rule1_test_def rule2_test_def rule3_test_def rule4_test_def
      get_or_def py_lt_def RouteGeneralQueue_def RouteSTP_def)

text \<open>
  Claim C1, amended. A claim record that passes rules 1 to 3 (confidence at or above the
  threshold, compliant, priority not High, claim value not above the high-value threshold)
  and whose claim value is present, not zero and at most the STP threshold is routed to
  straight-through processing.
\<close>

theorem route_stp_nonzero_value:
  assumes "cd_confidence cd = Some (PNum c)" and "T \<le> c"
    and "cd_is_compliant cd = Some (PBool True)"
    and "cd_priority cd \<noteq> Some (PStr ''High'')"
    and "cd_value cd = Some (PNum v)" and "v \<noteq> 0"
    and "\<not> v > high_value_threshold R" and "v \<le> stp_threshold R"
  shows "intelligent_route T R (ClaimDict cd) =
           Inr \<lparr>decision = RouteSTP, reason = [Lit ''Low-value, compliant claim'']\<rparr>"
proof -
  have r1: "rule1_test T cd = Inr False"
    using assms(1,2) by (simp add: rule1_test_def get_or_def py_lt_def)
  have r2: "\<not> rule2_test cd"
    using assms(3) by (simp add: rule2_test_def get_or_def)
  have r3: "rule3_test R cd = Inr False"
    using assms(4,5,6,7) by (simp add: rule3_test_def get_or_def py_gt_def)
  have r4: "rule4_test R cd = Inr True"
    using assms(5,6,8) by (simp add: rule4_test_def get_or_def py_le_def)
  show ?thesis
    by (simp add: intelligent_route_def route_body_def try_except_def r1 r2 r3 r4 RouteSTP_def)
qed

theorem route_stp_nonzero_value_witness:
  "cd_confidence low_value_claim = Some (PNum (9 / 10)) \<and> (6 / 10 :: real) \<le> 9 / 10 \<and>
   cd_is_compliant low_value_claim = Some (PBool True) \<and>
   cd_priority low_value_claim \<noteq> Some (PStr ''High'') \<and>
   cd_value low_value_claim = Some (PNum 500) \<and> (500 :: real) \<noteq> 0 \<and>
   \<not> 500 > high_value_threshold example_rules \<and> 500 \<le> stp_threshold example_rules \<and>
   intelligent_route (6 / 10) example_rules (ClaimDict low_value_claim) =
     Inr \<lparr>decision = RouteSTP, reason = [Lit ''Low-value, compliant claim'']\<rparr>"
  using route_stp_nonzero_value [of low_value_claim "9 / 10" "6 / 10" 500 example_rules]
  by (simp add: low_value_claim_def example_claim_def example_rules_def)

section \<open>Properties of the compliance checker\<close>

subsection \<open>The matchers against the specification's notions\<close>

lemma str_in_sublist: "str_in p t \<longleftrightarrow> sublist p t"
  by (induction t) (auto simp: sublist_Cons_right)

lemma not_upper_hyphen [simp]: "\<not> is_upper CHR ''-''"
  by (simp add: is_upper_def)

text \<open>
  \<open>re.match\<close> succeeds exactly when some initial segment of the string has the policy
  number format.
\<close>

lemma policy_re_match_iff:
  "policy_re_match s \<longleftrightarrow> (\<exists>p. prefix p s \<and> policy_number_format p)"
proof
  assume m: "policy_re_match s"
  then obtain rest where s: "s = ''PN-'' @ rest"
    by (auto simp: policy_re_match_def split: list.splits)
  from m s have ls: "takeWhile is_upper rest \<noteq> []"
    by (simp add: policy_re_match_def)
  from m s obtain d tl where dr: "dropWhile is_upper rest = CHR ''-'' # d # tl" and d: "is_digit d"
    by (auto simp: policy_re_match_def split: list.splits)
  have rest: "rest = takeWhile is_upper rest @ CHR ''-'' # d # tl"
    using dr takeWhile_dropWhile_id [of is_upper rest] by simp
  let ?p = "''PN-'' @ takeWhile is_upper rest @ ''-'' @ [d]"
  have "prefix ?p s"
    unfolding s by (subst (2) rest) simp
  moreover have "policy_number_format ?p"
    unfolding policy_number_format_def
    apply (rule exI [of _ "takeWhile is_upper rest"], rule exI [of _ "[d]"])
    using ls d by (auto dest: set_takeWhileD)
  ultimately show "\<exists>p. prefix p s \<and> policy_number_format p" by blast
next
  assume "\<exists>p. prefix p s \<and> policy_number_format p"
  then obtain ls ds r where s: "s = (''PN-'' @ ls @ ''-'' @ ds) @ r"
    and ls: "ls \<noteq> []" "\<forall>c \<in> set ls. is_upper c" and ds: "ds \<noteq> []" "\<forall>c \<in> set ds. is_digit c"
    by (auto simp: policy_number_format_def prefix_def)
  from ds obtain d ds' where d: "ds = d # ds'" "is_digit d" by (cases ds) auto
  have tw: "takeWhile is_upper (ls @ CHR ''-'' # xs) = ls" for xs
    using ls(2) by simp
  have dw: "dropWhile is_upper (ls @ CHR ''-'' # xs) = CHR ''-'' # xs" for xs
    using ls(2) by simp
  show "policy_re_match s"
    unfolding s policy_re_match_def using ls(1) d by (simp add: tw dw)
qed

subsection \<open>The first two checks\<close>

lemma check_invalid:
  "\<not> truthy_str pn \<or> \<not> truthy_str ct \<or> \<not> truthy_str cd \<Longrightarrow>
   check_policy_compliance db pn ct cd = Inr invalid_data"
  by (auto simp: check_policy_compliance_def compliance_body_def try_except_def)

lemma check_format:
  "pn \<noteq> [] \<Longrightarrow> ct \<noteq> [] \<Longrightarrow> cd \<noteq> [] \<Longrightarrow> \<not> policy_re_match pn \<Longrightarrow>
   check_policy_compliance db (Some pn) (Some ct) (Some cd) =
     Inr (False, [Lit (''Invalid Policy Number format: '' @ pn)])"
  by (simp add: check_policy_compliance_def compliance_body_def try_except_def)

text \<open>
  Claim C3, as stated, fails: the check for missing data comes before the format check. With
  the policy number \<open>BAD-7\<close>, which does not match, and an empty claim type, the reason is
  the one for missing data and does not mention the policy number.
\<close>

theorem compliance_format_reason_counterexample:
  "\<not> policy_re_match ''BAD-7'' \<and>
   check_policy_compliance example_db (Some ''BAD-7'') (Some []) (Some ''Major collision damage'') =
     Inr (False, [Lit ''Invalid Data (Missing Policy No., Claim Type, or Claim Details)'']) \<and>
   [Lit ''Invalid Data (Missing Policy No., Claim Type, or Claim Details)''] \<noteq>
     [Lit (''Invalid Policy Number format: '' @ ''BAD-7'')]"
  by (simp add: check_policy_compliance_def compliance_body_def try_except_def invalid_data_def
      policy_re_match_def)

text \<open>
  Claim C3, amended. For every policy number of which no initial segment has the policy
  number format, the compliance check returns non-compliant for all values of the other
  inputs; the reason is the format error, which includes the policy number, whenever the
  policy number, the claim type and the claim text are all present and not empty.
\<close>

theorem compliance_bad_policy_number:
  assumes "\<not> (\<exists>p. prefix p pn \<and> policy_number_format p)"
  shows "(\<exists>why. check_policy_compliance db (Some pn) ct cd = Inr (False, why)) \<and>
     (pn \<noteq> [] \<and> truthy_str ct \<and> truthy_str cd \<longrightarrow>
        check_policy_compliance db (Some pn) ct cd =
          Inr (False, [Lit (''Invalid Policy Number format: '' @ pn)]))"
proof -
  from assms have nm: "\<not> policy_re_match pn"
    by (simp add: policy_re_match_iff)
  show ?thesis
  proof (cases "pn \<noteq> [] \<and> truthy_str ct \<and> truthy_str cd")
    case True
    then obtain t d where "ct = Some t" "cd = Some d" "t \<noteq> []" "d \<noteq> []" "pn \<noteq> []"
      by (cases ct; cases cd) auto
    with nm show ?thesis by (simp add: check_format)
  next
    case False
    then have "\<not> truthy_str (Some pn) \<or> \<not> truthy_str ct \<or> \<not> truthy_str cd" by auto
    from check_invalid [OF this] False show ?thesis by (auto simp: invalid_data_def)
  qed
qed

theorem compliance_bad_policy_number_witness:
  "\<not> (\<exists>p. prefix p ''PN-auto-1001'' \<and> policy_number_format p) \<and>
   ''PN-auto-1001'' \<noteq> [] \<and> truthy_str (Some ''collision'') \<and>
   truthy_str (Some ''Major collision damage'') \<and>
   check_policy_compliance example_db (Some ''PN-auto-1001'') (Some ''collision'')
       (Some ''Major collision damage'') =
     Inr (False, [Lit ''Invalid Policy Number format: PN-auto-1001''])"
proof -
  have nm: "\<not> (\<exists>p. prefix p ''PN-auto-1001'' \<and> policy_number_format p)"
    unfolding policy_re_match_iff [symmetric]
    by (simp add: policy_re_match_def is_upper_def)
  from compliance_bad_policy_number
    [OF nm, of example_db "Some ''collision''" "Some ''Major collision damage''"]
  show ?thesis using nm by simp
qed

subsection \<open>The scan of the exclusions\<close>

lemma scan_exclusions_find:
  "scan_exclusions (map PStr excl) low =
     Inr (case find (\<lambda>e. sublist e low) excl of
            None \<Rightarrow> (True, [Lit ''Compliant''])
          | Some e \<Rightarrow> (False, [Lit (''Claim rejected due to exclusion clause: '' @ quoted e @ ''.'')]))"
  by (induction excl) (simp_all add: str_in_sublist)

lemma find_cong_set: "(\<And>x. x \<in> set xs \<Longrightarrow> P x = Q x) \<Longrightarrow> find P xs = find Q xs"
  by (induction xs) auto

text \<open>
  Claim C4. When the first four checks pass (the arguments are present, the policy number
  matches, the policy is in the store and covers the claim type), the result is decided by
  the first exclusion, in stored order, that is a case-insensitive substring of the claim
  text: the claim is rejected with a reason that names this exclusion, and is compliant if
  there is none. The exclusions are lower-case phrases, as the data model has them.
\<close>

theorem compliance_first_exclusion:
  assumes "pn \<noteq> []" and "ct \<noteq> []" and "cd \<noteq> []" and "policy_re_match pn"
    and "map_of db pn = Some (PDict policy)"
    and "map_of policy ''coverage'' = Some (PList cov)" and "PStr ct \<in> set cov"
    and "map_of policy ''exclusions'' = Some (PList (map PStr excl))"
    and "\<forall>e \<in> set excl. lower e = e"
  shows "check_policy_compliance db (Some pn) (Some ct) (Some cd) =
     Inr (case find (\<lambda>e. ci_substring e cd) excl of
            None \<Rightarrow> (True, [Lit ''Compliant''])
          | Some e \<Rightarrow> (False, [Lit (''Claim rejected due to exclusion clause: '' @ quoted e @ ''.'')]))"
proof -
  have ne: "policy \<noteq> []" using assms(6) by auto
  have f: "find (\<lambda>e. sublist e (lower cd)) excl = find (\<lambda>e. ci_substring e cd) excl"
    using assms(9) by (intro find_cong_set) (simp add: ci_substring_def)
  show ?thesis
    using assms(1-8) ne
    by (simp add: check_policy_compliance_def compliance_body_def try_except_def subscript_def
        py_contains_def py_iter_def scan_exclusions_find f)
qed

text \<open>
  The witness: the policy excludes \<open>flood\<close> and \<open>war\<close>, in this order; a claim text that
  contains \<open>WARRANTY issue\<close> is rejected for the exclusion \<open>war\<close>.
\<close>

theorem compliance_first_exclusion_witness:
  "''PN-AUTO-1001'' \<noteq> [] \<and> ''collision'' \<noteq> [] \<and> ''Collision, WARRANTY issue'' \<noteq> [] \<and>
   policy_re_match ''PN-AUTO-1001'' \<and>
   map_of example_db ''PN-AUTO-1001'' =
     Some (PDict [(''coverage'', PList [PStr ''collision'']),
                  (''exclusions'', PList (map PStr [''flood'', ''war'']))]) \<and>
   lower ''flood'' = ''flood'' \<and> lower ''war'' = ''war'' \<and>
   find (\<lambda>e. ci_substring e ''Collision, WARRANTY issue'') [''flood'', ''war''] = Some ''war'' \<and>
   check_policy_compliance example_db (Some ''PN-AUTO-1001'') (Some ''collision'')
       (Some ''Collision, WARRANTY issue'') =
     Inr (False, [Lit (''Claim rejected due to exclusion clause: '' @ quoted ''war'' @ ''.'')])"
  using compliance_first_exclusion
    [of "''PN-AUTO-1001''" "''collision''" "''Collision, WARRANTY issue''" example_db
        "[(''coverage'', PList [PStr ''collision'']),
          (''exclusions'', PList [PStr ''flood'', PStr ''war''])]"
        "[PStr ''collision'']" "[''flood'', ''war'']"]
  by (simp add: example_db_def policy_re_match_def is_upper_def is_digit_def lower_def
      lower_char_def ci_substring_def str_in_sublist [symmetric])

section \<open>Properties of the classifier\<close>

lemma classify_returns: "\<exists>ct conf pr. classify_claim m t = Inr (ct, conf, pr)"
proof (cases "m = None \<or> \<not> truthy t \<or> \<not> is_str t")
  case True
  then show ?thesis by (auto simp: classify_claim_def)
next
  case False
  then obtain md s where "m = Some md" "t = PStr s"
    by (cases m; cases t) (auto simp: is_str_def)
  with False show ?thesis
    by (cases "classify_body md s") (auto simp: classify_claim_def try_except_def)
qed

lemma keywords_lower: "kw \<in> set high_priority_keywords \<Longrightarrow> lower kw = kw"
  by (auto simp: high_priority_keywords_def lower_def lower_char_def)

text \<open>The priority in the specification's words: a case-insensitive match of a keyword.\<close>

lemma priority_of_ci:
  "priority_of s =
     (if \<exists>kw \<in> set [''major'', ''fire'', ''totaled'', ''emergency'', ''collision'']. ci_substring kw s
      then ''High'' else ''Medium'')"
proof -
  have "list_ex (\<lambda>kw. str_in kw (lower s)) high_priority_keywords \<longleftrightarrow>
        (\<exists>kw \<in> set high_priority_keywords. ci_substring kw s)"
    by (simp add: list_ex_iff ci_substring_def keywords_lower str_in_sublist)
  then show ?thesis
    by (simp add: priority_of_def high_priority_keywords_def)
qed

lemma classify_body_result:
  "classify_body md s = Inr (ct, conf, pr) \<Longrightarrow> ct \<noteq> None \<and> pr = Some (priority_of s)"
  by (auto simp: classify_body_def split: sum.splits)

text \<open>
  Claim C8. For every model and every text input the classifier returns a triple. When the
  claim type is absent the confidence is 0.0. When the claim type is defined, the input is a
  string and the priority is defined: it is High exactly when one of the keywords major,
  fire, totaled, emergency, collision is a case-insensitive substring of the text, and Medium
  otherwise; it is a function of the text alone, so the confidence does not enter it.
\<close>

theorem classify_contract:
  "\<exists>ct conf pr. classify_claim model claim_text = Inr (ct, conf, pr) \<and>
     (ct = None \<longrightarrow> conf = 0) \<and>
     (ct \<noteq> None \<longrightarrow>
        (\<exists>s. claim_text = PStr s \<and>
           pr = Some (if \<exists>kw \<in> set [''major'', ''fire'', ''totaled'', ''emergency'', ''collision''].
                           ci_substring kw s
                      then ''High'' else ''Medium'')))"
proof (cases "model = None \<or> \<not> truthy claim_text \<or> \<not> is_str claim_text")
  case True
  then show ?thesis by (auto simp: classify_claim_def)
next
  case False
  then obtain md s where ms: "model = Some md" "claim_text = PStr s"
    by (cases model; cases claim_text) (auto simp: is_str_def)
  show ?thesis
  proof (cases "classify_body md s")
    case (Inl e)
    with ms False show ?thesis by (simp add: classify_claim_def try_except_def)
  next
    case (Inr r)
    obtain ct conf pr where r: "r = (ct, conf, pr)" by (cases r)
    from Inr r have "ct \<noteq> None \<and> pr = Some (priority_of s)"
      using classify_body_result by blast
    with ms False Inr r show ?thesis
      by (auto simp: classify_claim_def try_except_def priority_of_ci)
  qed
qed

text \<open>
  The witness: the example model classifies a text with \<open>Major\<close> and \<open>collision\<close> in it as
  a collision claim of High priority; a model whose prediction raises gives no claim type
  and confidence 0.0.
\<close>

theorem classify_contract_witness:
  "classify_claim (Some example_model) (PStr ''Major collision damage'') =
     Inr (Some ''collision'', 9 / 10, Some ''High'') \<and>
   ci_substring ''major'' ''Major collision damage'' \<and>
   classify_claim (Some failing_model) (PStr ''Major collision damage'') = Inr (None, 0, None) \<and>
   (\<exists>ct conf pr. classify_claim (Some failing_model) (PStr ''Major collision damage'') =
       Inr (ct, conf, pr) \<and> (ct = None \<longrightarrow> conf = 0))"
proof -
  have 1: "classify_claim (Some example_model) (PStr ''Major collision damage'') =
     Inr (Some ''collision'', 9 / 10, Some ''High'')"
    by (simp add: classify_claim_def classify_body_def try_except_def example_model_def
        is_str_def priority_of_def high_priority_keywords_def lower_def lower_char_def)
  have 2: "ci_substring ''major'' ''Major collision damage''"
    by (simp add: ci_substring_def str_in_sublist [symmetric] lower_def lower_char_def)
  have 3: "classify_claim (Some failing_model) (PStr ''Major collision damage'') = Inr (None, 0, None)"
    by (simp add: classify_claim_def classify_body_def try_except_def failing_model_def is_str_def)
  from classify_contract [of "Some failing_model" "PStr ''Major collision damage''"]
  have "\<exists>ct conf pr. classify_claim (Some failing_model) (PStr ''Major collision damage'') =
       Inr (ct, conf, pr) \<and> (ct = None \<longrightarrow> conf = 0)"
    by blast
  with 1 2 3 show ?thesis by blast
qed

section \<open>Properties of the pipeline\<close>

lemma check_returns: "\<exists>ok why. check_policy_compliance db pn ct cd = Inr (ok, why)"
  by (cases "compliance_body db pn ct cd")
     (auto simp: check_policy_compliance_def try_except_def)

lemma route_returns: "\<exists>r. intelligent_route T R arg = Inr r"
  by (cases "route_body T R arg") (auto simp: intelligent_route_def try_except_def)

text \<open>
  Claim C6. When the extraction yields no entities or no text, the run returns the Failed
  record with the reason for an unreadable document, and has called the extraction stage
  only. When the classification yields no claim type, the run returns the Failed record
  with the reason for an unclassifiable claim, and has called the extraction and the
  classification only. A Failed record holds nothing but its reason.
\<close>

theorem run_short_circuits:
  "(process_document image_path = Inr (ents, txt) \<and> (ents = None \<or> \<not> truthy_str txt) \<longrightarrow>
      run process_document model db T R image_path =
        (Failed [Lit ''Could not process document. The image may be unreadable or blank.''],
         [Extraction])) \<and>
   (process_document image_path = Inr (Some e, Some t) \<and> t \<noteq> [] \<and>
    classify_claim (Some model) (PStr t) = Inr (ct, conf, pr) \<and> \<not> truthy_str ct \<longrightarrow>
      run process_document model db T R image_path =
        (Failed [Lit ''Could not classify the claim from the text.''],
         [Extraction, Classification]))"
  by (auto simp: run_def run_body_def)

theorem run_short_circuits_witness:
  "blank_document ''claim.png'' = Inr (None, None) \<and>
   run blank_document example_model example_db (6 / 10) example_rules ''claim.png'' =
     (Failed [Lit ''Could not process document. The image may be unreadable or blank.''],
      [Extraction]) \<and>
   example_document ''claim.png'' = Inr (Some example_entities, Some ''Major collision damage'') \<and>
   ''Major collision damage'' \<noteq> [] \<and>
   classify_claim (Some failing_model) (PStr ''Major collision damage'') = Inr (None, 0, None) \<and>
   \<not> truthy_str None \<and>
   run example_document failing_model example_db (6 / 10) example_rules ''claim.png'' =
     (Failed [Lit ''Could not classify the claim from the text.''],
      [Extraction, Classification])"
proof -
  have c: "classify_claim (Some failing_model) (PStr ''Major collision damage'') = Inr (None, 0, None)"
    by (simp add: classify_claim_def classify_body_def try_except_def failing_model_def is_str_def)
  from run_short_circuits
    [of blank_document "''claim.png''" None None example_model example_db "6 / 10" example_rules]
  have 1: "run blank_document example_model example_db (6 / 10) example_rules ''claim.png'' =
     (Failed [Lit ''Could not process document. The image may be unreadable or blank.''],
      [Extraction])"
    by (simp add: blank_document_def)
  from run_short_circuits
    [of example_document "''claim.png''" "Some example_entities" "Some ''Major collision damage''"
        failing_model example_db "6 / 10" example_rules example_entities
        "''Major collision damage''" None 0 None] c
  have 2: "run example_document failing_model example_db (6 / 10) example_rules ''claim.png'' =
     (Failed [Lit ''Could not classify the claim from the text.''],
      [Extraction, Classification])"
    by (simp add: example_document_def)
  from 1 2 c show ?thesis
    by (simp add: blank_document_def example_document_def)
qed

lemma run_success:
  assumes "Compliance \<in> set (snd (run pd model db T R path))"
  shows "is_Success (fst (run pd model db T R path)) \<and>
         snd (run pd model db T R path) = [Extraction, Classification, Compliance, Routing]"
proof (cases "pd path")
  case (Inl e)
  with assms show ?thesis by (simp add: run_def run_body_def)
next
  case (Inr x)
  obtain ents tx where x: "x = (ents, tx)" by (cases x)
  show ?thesis
  proof (cases "ents = None \<or> \<not> truthy_str tx")
    case True
    with assms Inr x show ?thesis by (auto simp: run_def run_body_def)
  next
    case False
    then obtain en t where et: "ents = Some en" "tx = Some t" "t \<noteq> []"
      by (cases ents; cases tx) auto
    obtain ct conf pr where c: "classify_claim (Some model) (PStr t) = Inr (ct, conf, pr)"
      using classify_returns by blast
    show ?thesis
    proof (cases "truthy_str ct")
      case False
      with assms Inr x et c show ?thesis
        by (auto simp: run_def run_body_def split: option.splits)
    next
      case True
      then obtain lab where lab: "ct = Some lab" "lab \<noteq> []" by (cases ct) auto
      obtain ok why where
        k: "check_policy_compliance db (POLICY_NO en) (Some lab) (Some t) = Inr (ok, why)"
        using check_returns by blast
      obtain r where r: "intelligent_route T R
            (ClaimDict \<lparr>cd_entities = Some en, cd_type = Some (PStr lab),
               cd_confidence = Some (PNum conf), cd_priority = Some (opt_str pr),
               cd_value = Some (opt_num (CLAIM_VALUE en)), cd_is_compliant = Some (PBool ok),
               cd_compliance_reason = Some why\<rparr>) = Inr r"
        using route_returns by blast
      from Inr x et c lab k r show ?thesis
        by (simp add: run_def run_body_def format_2f_def is_Success_def)
    qed
  qed
qed

text \<open>
  Claim C7. The compliance check and the router return a result on every input and never
  raise: an exception raised inside the compliance check (by a malformed policy record, for
  one) becomes a non-compliant result with a diagnostic reason, an exception raised inside
  the router (by a malformed claim record) becomes the decision FlagManualReview with a
  diagnostic reason. Hence a run that has called the compliance stage has called the
  routing stage as well and returns a Success record.
\<close>

theorem compliance_and_routing_never_abort:
  "(\<exists>ok why. check_policy_compliance db pn ct cd = Inr (ok, why)) \<and>
   (\<forall>e. compliance_body db pn ct cd = Inl e \<longrightarrow>
      check_policy_compliance db pn ct cd =
        Inr (False, [Lit ''Compliance check failed: '', ExnText e])) \<and>
   (\<exists>r. intelligent_route T R arg = Inr r) \<and>
   (\<forall>e. route_body T R arg = Inl e \<longrightarrow>
      intelligent_route T R arg =
        Inr \<lparr>decision = FlagManualReview, reason = [Lit ''Routing error: '', ExnText e]\<rparr>) \<and>
   (Compliance \<in> set (snd (run process_document model db T R image_path)) \<longrightarrow>
      is_Success (fst (run process_document model db T R image_path)) \<and>
      snd (run process_document model db T R image_path) =
        [Extraction, Classification, Compliance, Routing])"
proof (intro conjI allI impI)
  show "\<exists>ok why. check_policy_compliance db pn ct cd = Inr (ok, why)"
    by (rule check_returns)
  show "\<exists>r. intelligent_route T R arg = Inr r"
    by (rule route_returns)
next
  fix e assume "compliance_body db pn ct cd = Inl e"
  then show "check_policy_compliance db pn ct cd =
        Inr (False, [Lit ''Compliance check failed: '', ExnText e])"
    by (simp add: check_policy_compliance_def try_except_def)
next
  fix e assume "route_body T R arg = Inl e"
  then show "intelligent_route T R arg =
        Inr \<lparr>decision = FlagManualReview, reason = [Lit ''Routing error: '', ExnText e]\<rparr>"
    by (simp add: intelligent_route_def try_except_def FlagManualReview_def)
next
  assume c: "Compliance \<in> set (snd (run process_document model db T R image_path))"
  from run_success [OF c]
  show "is_Success (fst (run process_document model db T R image_path))"
    and "snd (run process_document model db T R image_path) =
        [Extraction, Classification, Compliance, Routing]"
    by simp_all
qed

text \<open>
  The witness: a policy record whose coverage is a number makes the membership test raise a
  TypeError, which comes back as a non-compliant result; a claim record whose value is a
  string makes the comparison of rule 3 raise a TypeError, which comes back as
  FlagManualReview; and the run over the malformed policy store completes with a Success
  record whose routing decision is AutoDeny.
\<close>

theorem compliance_and_routing_never_abort_witness:
  "compliance_body malformed_db (Some ''PN-AUTO-1001'') (Some ''collision'')
       (Some ''Major collision damage'') = Inl TypeError \<and>
   check_policy_compliance malformed_db (Some ''PN-AUTO-1001'') (Some ''collision'')
       (Some ''Major collision damage'') =
     Inr (False, [Lit ''Compliance check failed: '', ExnText TypeError]) \<and>
   route_body (6 / 10) example_rules (ClaimDict malformed_claim) = Inl TypeError \<and>
   intelligent_route (6 / 10) example_rules (ClaimDict malformed_claim) =
     Inr \<lparr>decision = FlagManualReview, reason = [Lit ''Routing error: '', ExnText TypeError]\<rparr> \<and>
   run example_document example_model malformed_db (6 / 10) example_rules ''claim.png'' =
     (Success example_entities
        \<lparr>c_type = ''collision'', c_priority = Some ''High'', c_confidence = Fmt2f (9 / 10)\<rparr>
        \<lparr>compliant = False, details = [Lit ''Compliance check failed: '', ExnText TypeError]\<rparr>
        \<lparr>decision = AutoDeny,
         reason = [Lit ''Non-compliant: '', Lit ''Compliance check failed: '', ExnText TypeError]\<rparr>,
      [Extraction, Classification, Compliance, Routing]) \<and>
   Compliance \<in> set (snd (run example_document example_model malformed_db (6 / 10) example_rules
                            ''claim.png'')) \<and>
   is_Success (fst (run example_document example_model malformed_db (6 / 10) example_rules
                      ''claim.png''))"
proof -
  have b: "compliance_body malformed_db (Some ''PN-AUTO-1001'') (Some ''collision'')
       (Some ''Major collision damage'') = Inl TypeError"
    by (simp add: compliance_body_def malformed_db_def policy_re_match_def is_upper_def
        is_digit_def subscript_def py_contains_def)
  have rb: "route_body (6 / 10) example_rules (ClaimDict malformed_claim) = Inl TypeError"
    by (simp add: route_body_def rule1_test_def rule2_test_def rule3_test_def get_or_def
        py_lt_def py_gt_def malformed_claim_def example_claim_def)
  have cl: "classify_claim (Some example_model) (PStr ''Major collision damage'') =
     Inr (Some ''collision'', 9 / 10, Some ''High'')"
    by (simp add: classify_claim_def classify_body_def try_except_def example_model_def
        is_str_def priority_of_def high_priority_keywords_def lower_def lower_char_def)
  have ru: "run example_document example_model malformed_db (6 / 10) example_rules ''claim.png'' =
     (Success example_entities
        \<lparr>c_type = ''collision'', c_priority = Some ''High'', c_confidence = Fmt2f (9 / 10)\<rparr>
        \<lparr>compliant = False, details = [Lit ''Compliance check failed: '', ExnText TypeError]\<rparr>
        \<lparr>decision = AutoDeny,
         reason = [Lit ''Non-compliant: '', Lit ''Compliance check failed: '', ExnText TypeError]\<rparr>,
      [Extraction, Classification, Compliance, Routing])"
    by (simp add: run_def run_body_def example_document_def cl example_entities_def
        check_policy_compliance_def b try_except_def intelligent_route_def route_body_def
        rule1_test_def rule2_test_def get_or_def py_lt_def format_2f_def AutoDeny_def)
  have m: "Compliance \<in> set (snd (run example_document example_model malformed_db (6 / 10)
                                    example_rules ''claim.png''))"
    unfolding ru by simp
  note t = compliance_and_routing_never_abort
    [of malformed_db "Some ''PN-AUTO-1001''" "Some ''collision''" "Some ''Major collision damage''"
        "6 / 10" example_rules "ClaimDict malformed_claim" example_document example_model
        "''claim.png''"]
  from t b have 1: "check_policy_compliance malformed_db (Some ''PN-AUTO-1001'') (Some ''collision'')
       (Some ''Major collision damage'') =
     Inr (False, [Lit ''Compliance check failed: '', ExnText TypeError])"
    by blast
  from t rb have 2: "intelligent_route (6 / 10) example_rules (ClaimDict malformed_claim) =
     Inr \<lparr>decision = FlagManualReview, reason = [Lit ''Routing error: '', ExnText TypeError]\<rparr>"
    by blast
  from t m have 3: "is_Success (fst (run example_document example_model malformed_db (6 / 10)
                      example_rules ''claim.png''))"
    by blast
  from b rb ru m 1 2 3 show ?thesis by blast
qed

end
